theory Spec2Isabelle
  imports Complex_Main
begin

section \<open>Python strings and exceptions\<close>

text \<open>
  A Python \<open>str\<close> is modelled as a \<open>string\<close>; a \<open>char\<close> stands for the code point of
  the same number, so the model covers strings over the code points 0 to 255.
  Every exception the source raises is a value \<open>Inl e\<close> of a sum type: \<open>ValueError\<close>
  with its message, Django's \<open>ValidationError\<close> with its dictionary of messages (the
  pairs in insertion order), the serializer's validation error with its detail, and
  \<open>Http404\<close>.
\<close>

datatype error =
    ValueError string
  | ValidationError "(string \<times> string) list"
  | SerializerValidationError string
  | Http404 string

definition is_decimal_chr :: "char \<Rightarrow> bool" where
  "is_decimal_chr c = (48 \<le> (of_char c :: nat) \<and> (of_char c :: nat) \<le> 57)"

text \<open>
  \<open>str.isdigit\<close> on one character. Below code point 256 Python answers True for the
  decimal digits and for the superscripts U+00B2, U+00B3 and U+00B9.
\<close>

definition chr_isdigit :: "char \<Rightarrow> bool" where
  "chr_isdigit c = (is_decimal_chr c \<or> (of_char c :: nat) \<in> {178, 179, 185})"

text \<open>\<open>s.isdigit()\<close>: False on the empty string.\<close>

definition str_isdigit :: "string \<Rightarrow> bool" where
  "str_isdigit s = (s \<noteq> [] \<and> list_all chr_isdigit s)"

text \<open>\<open>int(digit)\<close> on a one-character string: only a decimal digit converts.\<close>

definition int_chr :: "char \<Rightarrow> error + nat" where
  "int_chr c =
     (if is_decimal_chr c then Inr ((of_char c :: nat) - 48)
      else Inl (ValueError ''invalid literal for int() with base 10''))"

text \<open>\<open>str(n)\<close> for a natural number, as its list of decimal digits and as a string.\<close>

fun digits_of_nat :: "nat \<Rightarrow> nat list" where
  "digits_of_nat n = (if n < 10 then [n] else digits_of_nat (n div 10) @ [n mod 10])"

declare digits_of_nat.simps [simp del]

definition chr_of_digit :: "nat \<Rightarrow> char" where
  "chr_of_digit d = char_of (48 + d)"

definition str_of_nat :: "nat \<Rightarrow> string" where
  "str_of_nat n = map chr_of_digit (digits_of_nat n)"

section \<open>The Luhn check digit (student/utils.py)\<close>

text \<open>\<open>[int(digit) for digit in str(n)]\<close> for a string argument: the first failing
  conversion raises.\<close>

fun split_into_digits :: "string \<Rightarrow> error + nat list" where
  "split_into_digits [] = Inr []"
| "split_into_digits (c # cs) =
     (case int_chr c of
        Inl e \<Rightarrow> Inl e
      | Inr d \<Rightarrow> (case split_into_digits cs of Inl e \<Rightarrow> Inl e | Inr ds \<Rightarrow> Inr (d # ds)))"

text \<open>The same helper called on the integer \<open>doubled\<close>.\<close>

definition split_into_digits_int :: "nat \<Rightarrow> nat list" where
  "split_into_digits_int n = digits_of_nat n"

text \<open>The slice \<open>xs[0::2]\<close>; \<open>digits[-1::-2]\<close> is this slice of the reversed list, and
  \<open>digits[-2::-2]\<close> is this slice of the reversed list without its first element.\<close>

fun every_other :: "'a list \<Rightarrow> 'a list" where
  "every_other [] = []"
| "every_other [x] = [x]"
| "every_other (x # y # xs) = x # every_other xs"

definition odd_digits :: "nat list \<Rightarrow> nat list" where
  "odd_digits digits = every_other (rev digits)"

definition even_digits :: "nat list \<Rightarrow> nat list" where
  "even_digits digits = every_other (drop 1 (rev digits))"

text \<open>The \<open>for d in even_digits\<close> loop, adding to the running total.\<close>

fun add_doubled :: "nat \<Rightarrow> nat list \<Rightarrow> nat" where
  "add_doubled tot [] = tot"
| "add_doubled tot (d # ds) =
     (let doubled = d * 2 in add_doubled (tot + sum_list (split_into_digits_int doubled)) ds)"

definition luhn_total :: "nat list \<Rightarrow> nat" where
  "luhn_total digits = add_doubled (sum_list (odd_digits digits)) (even_digits digits)"

definition calculate_luhn_check_digit :: "string \<Rightarrow> error + nat" where
  "calculate_luhn_check_digit number =
     (case split_into_digits number of
        Inl e \<Rightarrow> Inl e
      | Inr digits \<Rightarrow> Inr ((10 - (luhn_total digits mod 10)) mod 10))"

section \<open>Admission numbers (student/utils.py)\<close>

text \<open>
  The random source is a sequence of natural numbers, one per draw;
  \<open>secrets.choice(seq)\<close> picks \<open>seq[r]\<close> for a number \<open>r\<close> below \<open>len(seq)\<close>, obtained here
  from the draw by \<open>mod\<close>, so that every element can be picked and nothing is assumed
  about the source.
\<close>

type_synonym rng = "nat \<Rightarrow> nat"

definition secrets_choice :: "'a list \<Rightarrow> nat \<Rightarrow> 'a" where
  "secrets_choice seq r = seq ! (r mod length seq)"

definition rng_drop :: "nat \<Rightarrow> rng \<Rightarrow> rng" where
  "rng_drop n rnd = (\<lambda>i. rnd (n + i))"

text \<open>
  \<open>school_code\<close> is the result of \<open>getenv("SCHOOL_CODE")\<close>: \<open>None\<close> when the variable is
  unset. \<open>total_length\<close> is a Python integer. The function returns its result together
  with the random source after its draws.
\<close>

definition generate_admission_number ::
  "string option \<Rightarrow> int \<Rightarrow> rng \<Rightarrow> (error + string) \<times> rng" where
  "generate_admission_number school_code total_length rnd =
     (case school_code of
        None \<Rightarrow> (Inl (ValueError ''SCHOOL_CODE must be set and numeric.''), rnd)
      | Some code \<Rightarrow>
          if code = [] \<or> \<not> str_isdigit code
          then (Inl (ValueError ''SCHOOL_CODE must be set and numeric.''), rnd)
          else
            let prefix = code;
                remaining_digits = total_length - int (length prefix) - 1
            in if remaining_digits \<le> 0
               then (Inl (ValueError
                  ''SCHOOL_CODE too long for the configured admission number length.''), rnd)
               else
                 let random_digits =
                       map (\<lambda>i. secrets_choice ''0123456789'' (rnd i)) [0 ..< nat remaining_digits];
                     rnd' = rng_drop (nat remaining_digits) rnd;
                     partial_admission_number = prefix @ random_digits
                 in (case calculate_luhn_check_digit partial_admission_number of
                       Inl e \<Rightarrow> (Inl e, rnd')
                     | Inr check_digit \<Rightarrow>
                         (Inr (partial_admission_number @ str_of_nat check_digit), rnd')))"

text \<open>
  The check digit as the specification words it: reading the digits right to left,
  a digit at an odd position is added as it is, a digit at an even position is doubled
  and a two-digit result is replaced by the sum of its digits; the check digit is
  \<open>(10 - total % 10) % 10\<close>.
\<close>

definition luhn_spec_term :: "nat \<Rightarrow> nat \<Rightarrow> nat" where
  "luhn_spec_term p d =
     (if odd p then d
      else (let doubled = 2 * d
            in if doubled \<ge> 10 then doubled div 10 + doubled mod 10 else doubled))"

definition luhn_spec_total :: "nat list \<Rightarrow> nat" where
  "luhn_spec_total ds = (\<Sum>i\<leftarrow>[0 ..< length ds]. luhn_spec_term (i + 1) (rev ds ! i))"

definition luhn_spec_check :: "nat list \<Rightarrow> nat" where
  "luhn_spec_check ds = (10 - luhn_spec_total ds mod 10) mod 10"

section \<open>Users, students, fees and transactions (student/models.py)\<close>

text \<open>
  The user model is not part of these sources. A user is its primary key and the two
  attributes the code reads with \<open>getattr(user, name, None)\<close>, each \<open>None\<close> when absent.
  Two model instances are equal when their primary keys are.
\<close>

record user =
  u_pk :: nat
  u_role :: "string option"
  u_last_name :: "string option"

text \<open>Modelled from the spec: the value of \<open>User.RoleChoices.PARENT\<close>, the role the
  payer's role is compared with ("Payer's role must equal parent"); it is also the
  default the code gives to \<open>getattr\<close> and the literal of common/permissions.py.\<close>

definition ROLE_PARENT :: string where
  "ROLE_PARENT = ''parent''"

definition gender_values :: "string list" where
  "gender_values = [''male'', ''female'', ''other'']"

definition GENDER_OTHER :: string where
  "GENDER_OTHER = ''other''"

definition ACCOUNT_ACTIVE :: string where
  "ACCOUNT_ACTIVE = ''active''"

definition ACCOUNT_INACTIVE :: string where
  "ACCOUNT_INACTIVE = ''in-active''"

text \<open>
  A row of \<open>Student\<close>. \<open>s_parent\<close> is the primary key of the owning user. The image
  fields, the sibling relation and the timestamps of the base model are left out; no
  function modelled here reads or writes them.
\<close>

record student =
  s_parent :: nat
  s_admission_number :: string
  s_first_name :: string
  s_last_name :: string
  s_gender :: string
  s_account_status :: string
  s_has_sibling :: bool
  s_verified_by :: "nat option"
  s_verification_date :: "nat option"
  s_verification_notes :: string
  s_fully_activated :: bool

record fees =
  f_student :: student
  f_fee_type :: string
  f_amount :: rat

text \<open>
  A \<open>Decimal\<close> is modelled as a rational number: comparison of decimals is comparison of
  their values. \<open>ti_transaction\<close> is the primary key of the owning transaction.
\<close>

record transaction_item =
  ti_transaction :: nat
  ti_fee :: fees
  ti_amount :: rat

text \<open>\<open>t_pk\<close> is \<open>None\<close> until the row is saved; \<open>t_amount\<close> is \<open>None\<close> when the attribute
  holds \<open>None\<close>, the case the code tests for.\<close>

record transaction =
  t_pk :: "nat option"
  t_payer :: user
  t_amount :: "rat option"
  t_description :: "string option"
  t_status :: string
  t_transaction_type :: string

text \<open>The truth value of \<open>self.pk\<close>.\<close>

definition pk_truthy :: "nat option \<Rightarrow> bool" where
  "pk_truthy pk = (case pk of None \<Rightarrow> False | Some k \<Rightarrow> k \<noteq> 0)"

text \<open>\<open>self.items.all()\<close>: the rows of the item table that reference this transaction.\<close>

definition items_all :: "transaction_item list \<Rightarrow> transaction \<Rightarrow> transaction_item list" where
  "items_all item_table self = filter (\<lambda>ti. Some (ti_transaction ti) = t_pk self) item_table"

text \<open>\<open>aggregate(total=Sum("amount")).get("total")\<close>: \<open>None\<close> over no rows.\<close>

definition aggregate_sum :: "rat list \<Rightarrow> rat option" where
  "aggregate_sum amounts = (if amounts = [] then None else Some (sum_list amounts))"

text \<open>
  \<open>Transaction.clean\<close>. The dictionary \<open>errors\<close> is the list of its pairs in insertion order;
  each key is set at most once. Model instances are true in a condition, so of
  \<open>self.payer and ...\<close> and \<open>ti.fee and ti.fee.student and ...\<close> the last conjunct decides.
\<close>

definition clean :: "transaction_item list \<Rightarrow> transaction \<Rightarrow> error + unit" where
  "clean item_table self =
     (let errors = [];
          errors = (if u_role (t_payer self) \<noteq> Some ROLE_PARENT
                    then errors @ [(''payer'', ''Payer must have role 'Parent'.'')]
                    else errors);
          errors = (case t_amount self of
                      None \<Rightarrow> errors
                    | Some amount \<Rightarrow>
                        if amount \<le> 0
                        then errors @ [(''amount'', ''Amount must be greater than 0.'')]
                        else errors);
          errors =
            (if pk_truthy (t_pk self) then
               let items = items_all item_table self;
                   errors = (if items = []
                             then errors @ [(''items'',
                               ''At least one fee item must be added to the transaction.'')]
                             else errors);
                   total = aggregate_sum (map ti_amount items);
                   errors = (if total = None \<or> total \<noteq> t_amount self
                             then errors @ [(''items_amount'',
                               ''Sum of item amounts must equal the transaction amount.'')]
                             else errors);
                   invalid = filter (\<lambda>ti. s_parent (f_student (ti_fee ti)) \<noteq> u_pk (t_payer self))
                               items
               in (if invalid \<noteq> []
                   then errors @ [(''items_owner'',
                     ''All fee items must belong to students of the payer.'')]
                   else errors)
             else errors)
      in if errors \<noteq> [] then Inl (ValidationError errors) else Inr ())"

text \<open>
  The rules of validation as the specification lists them, each with the field it is
  reported on: the payer's role is the parent role; the amount, when there is one, is
  greater than 0; and, for a row that exists, there is at least one item, the sum of the
  item amounts equals the amount, and every item's fee belongs to a student of the payer.
  The set holds the fields of the rules that are violated.
\<close>

definition violated_fields :: "transaction_item list \<Rightarrow> transaction \<Rightarrow> string set" where
  "violated_fields item_table self =
     (let items = items_all item_table self
      in (if u_role (t_payer self) \<noteq> Some ROLE_PARENT then {''payer''} else {})
       \<union> (if (case t_amount self of None \<Rightarrow> False | Some a \<Rightarrow> a \<le> 0) then {''amount''} else {})
       \<union> (if pk_truthy (t_pk self) \<and> items = [] then {''items''} else {})
       \<union> (if pk_truthy (t_pk self) \<and> t_amount self \<noteq> Some (sum_list (map ti_amount items))
          then {''items_amount''} else {})
       \<union> (if pk_truthy (t_pk self)
             \<and> list_ex (\<lambda>ti. s_parent (f_student (ti_fee ti)) \<noteq> u_pk (t_payer self)) items
          then {''items_owner''} else {}))"

section \<open>Enrollment (student/utils.py)\<close>

text \<open>
  \<open>str.strip\<close> and \<open>str.title\<close> on code points below 256. \<open>title\<close> is Python's loop: a
  character that follows a cased character is lower-cased, any other is title-cased.
  Three lower-case characters have a title-case form outside this range (U+00B5, U+00DF
  and U+00FF); the model leaves them unchanged.
\<close>

definition chr_isspace :: "char \<Rightarrow> bool" where
  "chr_isspace c =
     (let n = (of_char c :: nat)
      in (9 \<le> n \<and> n \<le> 13) \<or> (28 \<le> n \<and> n \<le> 32) \<or> n = 133 \<or> n = 160)"

definition py_strip :: "string \<Rightarrow> string" where
  "py_strip s = rev (dropWhile chr_isspace (rev (dropWhile chr_isspace s)))"

definition chr_isupper :: "char \<Rightarrow> bool" where
  "chr_isupper c =
     (let n = (of_char c :: nat)
      in (65 \<le> n \<and> n \<le> 90) \<or> (192 \<le> n \<and> n \<le> 214) \<or> (216 \<le> n \<and> n \<le> 222))"

definition chr_islower :: "char \<Rightarrow> bool" where
  "chr_islower c =
     (let n = (of_char c :: nat)
      in (97 \<le> n \<and> n \<le> 122) \<or> (223 \<le> n \<and> n \<le> 246) \<or> (248 \<le> n \<and> n \<le> 255)
         \<or> n = 170 \<or> n = 181 \<or> n = 186)"

definition chr_iscased :: "char \<Rightarrow> bool" where
  "chr_iscased c = (chr_isupper c \<or> chr_islower c)"

definition chr_lower :: "char \<Rightarrow> char" where
  "chr_lower c = (if chr_isupper c then char_of ((of_char c :: nat) + 32) else c)"

definition chr_title :: "char \<Rightarrow> char" where
  "chr_title c =
     (let n = (of_char c :: nat)
      in if (97 \<le> n \<and> n \<le> 122) \<or> (224 \<le> n \<and> n \<le> 246) \<or> (248 \<le> n \<and> n \<le> 254)
         then char_of (n - 32) else c)"

fun title_from :: "bool \<Rightarrow> string \<Rightarrow> string" where
  "title_from previous_is_cased [] = []"
| "title_from previous_is_cased (c # cs) =
     (if previous_is_cased then chr_lower c else chr_title c) # title_from (chr_iscased c) cs"

definition py_title :: "string \<Rightarrow> string" where
  "py_title s = title_from False s"

text \<open>\<open>x or default\<close> for an optional string, and so \<open>if not x: x = default\<close>: the default
  replaces \<open>None\<close> and the empty string.\<close>

definition py_or :: "string option \<Rightarrow> string \<Rightarrow> string" where
  "py_or x dflt = (case x of None \<Rightarrow> dflt | Some s \<Rightarrow> if s = [] then dflt else s)"

text \<open>
  The store: the rows of the student table in insertion order, the profile rows, the
  recorded profile views, and the callbacks registered with \<open>transaction.on_commit\<close>
  (each the pair of arguments of the notification it will send). The callbacks run
  after the outermost block has committed, when the rows are already written; the
  function they call, \<open>send_account_creation_email\<close>, is defined nowhere in these
  sources (utils.py imports the module \<open>emails\<close> only). Running them is not part of the
  model: a function here returns what its \<open>return\<close> statement builds, and the store it
  leaves.
\<close>

record 'a profile =
  p_id :: nat
  p_user :: user
  p_data :: 'a

record content_view =
  cv_object_id :: nat
  cv_user :: nat
  cv_viewer_ip :: "string option"
  cv_last_viewed :: nat

record 'a db =
  students :: "student list"
  profiles :: "'a profile list"
  content_views :: "content_view list"
  on_commit :: "(user \<times> student) list"

text \<open>\<open>Student.objects.create(...)\<close> with the six fields the call passes; the others take
  the defaults of the model.\<close>

definition Student_create ::
  "nat \<Rightarrow> string \<Rightarrow> bool \<Rightarrow> string \<Rightarrow> string \<Rightarrow> string \<Rightarrow> student" where
  "Student_create parent admission_number has_sibling first_name last_name gender =
     \<lparr> s_parent = parent,
       s_admission_number = admission_number,
       s_first_name = first_name,
       s_last_name = last_name,
       s_gender = gender,
       s_account_status = ACCOUNT_INACTIVE,
       s_has_sibling = has_sibling,
       s_verified_by = None,
       s_verification_date = None,
       s_verification_notes = [],
       s_fully_activated = False \<rparr>"

text \<open>
  The \<open>while True\<close> loop. The insert raises \<open>IntegrityError\<close> when the admission number is
  already in the table (the column is unique), and the loop draws again; an error of
  \<open>generate_admission_number\<close> is not caught. The loop need not end: \<open>None\<close> is a
  run that never returns.
\<close>

partial_function (option) create_loop ::
  "string option \<Rightarrow> student list \<Rightarrow> (string \<Rightarrow> student) \<Rightarrow> rng
     \<Rightarrow> ((error + student) \<times> rng) option" where
  "create_loop school_code rows new_row rnd =
     (case generate_admission_number school_code 16 rnd of
        (Inl e, rnd') \<Rightarrow> Some (Inl e, rnd')
      | (Inr admission_number, rnd') \<Rightarrow>
          if admission_number \<in> set (map s_admission_number rows)
          then create_loop school_code rows new_row rnd'
          else Some (Inr (new_row admission_number), rnd'))"

declare create_loop.simps [code]

text \<open>
  \<open>create_student_account\<close>. An exception inside \<open>with transaction.atomic()\<close> rolls the
  block back: the store returned with an error is the store at entry.
\<close>

definition create_student_account ::
  "string option \<Rightarrow> user \<Rightarrow> string option \<Rightarrow> string option \<Rightarrow> string option
     \<Rightarrow> 'a db \<Rightarrow> rng \<Rightarrow> ((error + student) \<times> 'a db \<times> rng) option" where
  "create_student_account school_code user first_name last_name gender db rnd =
     (let first_name = py_or first_name ''Student'';
          last_name = py_or last_name (py_or (u_last_name user) ''Account'');
          gender = py_or gender GENDER_OTHER
      in if gender \<notin> set gender_values
         then Some (Inl (ValueError
                ''Invalid gender value. Allowed: ['female', 'male', 'other']''), db, rnd)
         else
           let has_sibling = (\<exists>s \<in> set (students db). s_parent s = u_pk user)
           in (case create_loop school_code (students db)
                      (\<lambda>admission_number.
                          Student_create (u_pk user) admission_number has_sibling
                            (py_title (py_strip first_name)) (py_title (py_strip last_name)) gender)
                      rnd of
                 None \<Rightarrow> None
               | Some (Inl e, rnd') \<Rightarrow> Some (Inl e, db, rnd')
               | Some (Inr student_account, rnd') \<Rightarrow>
                   Some (Inr student_account,
                         db\<lparr> students := students db @ [student_account],
                             on_commit := on_commit db @ [(user, student_account)] \<rparr>,
                         rnd')))"

section \<open>The profile update (user_profile/views.py)\<close>

text \<open>
  The request: the authenticated user, the two headers \<open>get_client_ip\<close> reads, the time
  of the call, the profile payload handed to the serializer, and the two entries of
  \<open>request.data\<close> the view reads itself, each \<open>None\<close> when the key is absent.
\<close>

datatype json = JNull | JBool bool | JNum int | JStr string

fun py_bool :: "json \<Rightarrow> bool" where
  "py_bool JNull = False"
| "py_bool (JBool b) = b"
| "py_bool (JNum n) = (n \<noteq> 0)"
| "py_bool (JStr s) = (s \<noteq> [])"

record child_payload =
  c_first_name :: "string option"
  c_last_name :: "string option"
  c_gender :: "string option"

record 'd request =
  req_user :: user
  req_x_forwarded_for :: "string option"
  req_remote_addr :: "string option"
  req_now :: nat
  req_data :: 'd
  req_create_student :: "json option"
  req_student :: "child_payload option"

text \<open>
  The profile serializer is not part of these sources; it is a parameter.
  \<open>ser_is_valid\<close> answers \<open>None\<close> when the payload is valid and the error detail otherwise;
  \<open>ser_save\<close> answers the updated profile, or the exception it raises.
\<close>

record ('a, 'd) serializer =
  ser_is_valid :: "bool \<Rightarrow> 'a profile \<Rightarrow> 'd \<Rightarrow> string option"
  ser_save :: "bool \<Rightarrow> 'a profile \<Rightarrow> 'd \<Rightarrow> error + 'a profile"

text \<open>The body of a response: \<open>{"message": m, "data": d}\<close>, \<open>{"errors": detail}\<close>, or
  \<open>{"error": str(e)}\<close> (kept as the exception \<open>e\<close>).\<close>

datatype 'a body =
    MessageData string "'a profile"
  | Errors string
  | ErrorStr error

datatype 'a response = Response "'a body" nat

definition get_client_ip :: "'d request \<Rightarrow> string option" where
  "get_client_ip request =
     (case req_x_forwarded_for request of
        None \<Rightarrow> req_remote_addr request
      | Some x_forwarded_for \<Rightarrow>
          if x_forwarded_for = [] then req_remote_addr request
          else Some (takeWhile (\<lambda>c. c \<noteq> CHR '','') x_forwarded_for))"

text \<open>\<open>ContentView.objects.update_or_create\<close> on the four lookup fields, here for the
  content type of profiles only.\<close>

fun update_or_create_view ::
  "nat \<Rightarrow> nat \<Rightarrow> string option \<Rightarrow> nat \<Rightarrow> content_view list \<Rightarrow> content_view list" where
  "update_or_create_view object_id user_pk viewer_ip now [] =
     [\<lparr> cv_object_id = object_id, cv_user = user_pk, cv_viewer_ip = viewer_ip,
        cv_last_viewed = now \<rparr>]"
| "update_or_create_view object_id user_pk viewer_ip now (v # vs) =
     (if cv_object_id v = object_id \<and> cv_user v = user_pk \<and> cv_viewer_ip v = viewer_ip
      then v\<lparr> cv_last_viewed := now \<rparr> # vs
      else v # update_or_create_view object_id user_pk viewer_ip now vs)"

definition record_profile_view :: "'d request \<Rightarrow> 'a profile \<Rightarrow> 'a db \<Rightarrow> 'a db" where
  "record_profile_view request profile db =
     (let viewer_ip = get_client_ip request;
          user = req_user request
      in db\<lparr> content_views :=
               update_or_create_view (p_id profile) (u_pk user) viewer_ip (req_now request)
                 (content_views db) \<rparr>)"

definition get_object :: "'d request \<Rightarrow> 'a db \<Rightarrow> (error + 'a profile) \<times> 'a db" where
  "get_object request db =
     (case find (\<lambda>p. u_pk (p_user p) = u_pk (req_user request)) (profiles db) of
        None \<Rightarrow> (Inl (Http404 ''Profile does not exist''), db)
      | Some profile \<Rightarrow> (Inr profile, record_profile_view request profile db))"

text \<open>
  The block under \<open>with transaction.atomic()\<close> in \<open>update\<close>. It answers the exception that
  leaves the block, or the response and the store to commit.
\<close>

definition update_atomic ::
  "('a, 'd) serializer \<Rightarrow> string option \<Rightarrow> bool \<Rightarrow> 'd request \<Rightarrow> 'a profile \<Rightarrow> 'a db \<Rightarrow> rng
     \<Rightarrow> ((error + 'a response \<times> 'a db) \<times> rng) option" where
  "update_atomic ser school_code partial request instance db rnd =
     (case ser_save ser partial instance (req_data request) of
        Inl e \<Rightarrow> Some (Inl e, rnd)
      | Inr updated_instance \<Rightarrow>
          let db = db\<lparr> profiles :=
                         map (\<lambda>p. if p_id p = p_id instance then updated_instance else p)
                           (profiles db) \<rparr>;
              create_student = (case req_create_student request of
                                  None \<Rightarrow> False | Some v \<Rightarrow> py_bool v);
              student_payload = (case req_student request of
                                   None \<Rightarrow> \<lparr> c_first_name = None, c_last_name = None,
                                              c_gender = None \<rparr>
                                 | Some payload \<Rightarrow> payload)
          in if create_student then
               let first_name = c_first_name student_payload;
                   last_name = c_last_name student_payload;
                   gender = c_gender student_payload
               in (case create_student_account school_code (p_user updated_instance)
                          first_name last_name gender db rnd of
                     None \<Rightarrow> None
                   | Some (Inl e, _, rnd') \<Rightarrow> Some (Inl e, rnd')
                   | Some (Inr student_account, db, rnd') \<Rightarrow>
                       let parent = u_pk (p_user updated_instance);
                           qs = filter (\<lambda>s. s_parent s = parent) (students db);
                           db = (if length qs > 1
                                 then db\<lparr> students :=
                                          map (\<lambda>s. if s_parent s = parent
                                                    then s\<lparr> s_has_sibling := True \<rparr> else s)
                                            (students db) \<rparr>
                                 else db);
                           message = ''Profile updated and new student created successfully. ''
                                     @ ''An email has been sent to your account.''
                       in Some (Inr (Response (MessageData message updated_instance) 200, db), rnd'))
             else
               let message = ''Profile updated successfully.''
               in Some (Inr (Response (MessageData message updated_instance) 200, db), rnd))"

text \<open>
  \<open>ProfileDetailAPIView.update\<close>. \<open>get_object\<close> runs before the \<open>try\<close>, so its \<open>Http404\<close>
  leaves the method; what it wrote is outside the atomic block and stays. An exception
  from the block rolls the block back and becomes a 400 response.
\<close>

definition update ::
  "('a, 'd) serializer \<Rightarrow> string option \<Rightarrow> bool \<Rightarrow> 'd request \<Rightarrow> 'a db \<Rightarrow> rng
     \<Rightarrow> ((error + 'a response) \<times> 'a db \<times> rng) option" where
  "update ser school_code partial request db rnd =
     (case get_object request db of
        (Inl e, db) \<Rightarrow> Some (Inl e, db, rnd)
      | (Inr instance, db) \<Rightarrow>
          (case ser_is_valid ser partial instance (req_data request) of
             Some detail \<Rightarrow> Some (Inr (Response (Errors detail) 400), db, rnd)
           | None \<Rightarrow>
               (case update_atomic ser school_code partial request instance db rnd of
                  None \<Rightarrow> None
                | Some (Inl (SerializerValidationError detail), rnd') \<Rightarrow>
                    Some (Inr (Response (Errors detail) 400), db, rnd')
                | Some (Inl e, rnd') \<Rightarrow> Some (Inr (Response (ErrorStr e) 400), db, rnd')
                | Some (Inr (response, db'), rnd') \<Rightarrow> Some (Inr response, db', rnd'))))"

section \<open>Properties of the check digit and of admission numbers\<close>

lemma digits_of_nat_small: "n < 10 \<Longrightarrow> digits_of_nat n = [n]"
  by (subst digits_of_nat.simps) simp

lemma digits_of_nat_two:
  "10 \<le> n \<Longrightarrow> n < 100 \<Longrightarrow> digits_of_nat n = [n div 10, n mod 10]"
  by (subst digits_of_nat.simps) (simp add: digits_of_nat_small)

lemma doubled_digit_sum:
  "d \<le> 9 \<Longrightarrow> sum_list (split_into_digits_int (d * 2)) = luhn_spec_term 2 d"
  by (cases "d * 2 < 10")
    (simp_all add: split_into_digits_int_def luhn_spec_term_def digits_of_nat_small
      digits_of_nat_two Let_def mult.commute)

lemma add_doubled_sum:
  "\<forall>d \<in> set ds. d \<le> 9 \<Longrightarrow> add_doubled t ds = t + (\<Sum>d\<leftarrow>ds. luhn_spec_term 2 d)"
  by (induction ds arbitrary: t) (simp_all add: doubled_digit_sum Let_def)

lemma upt_two: "[0 ..< Suc (Suc n)] = 0 # Suc 0 # map (\<lambda>i. Suc (Suc i)) [0 ..< n]"
proof -
  have "[0 ..< Suc (Suc n)] = 0 # map Suc [0 ..< Suc n]"
    by (simp only: map_Suc_upt upt_conv_Cons [of 0 "Suc (Suc n)"] zero_less_Suc)
  also have "[0 ..< Suc n] = 0 # map Suc [0 ..< n]"
    by (simp only: map_Suc_upt upt_conv_Cons [of 0 "Suc n"] zero_less_Suc)
  finally show ?thesis by (simp add: comp_def)
qed

text \<open>The two slices together visit every position once: the even indices are added as
  they are, the odd ones through \<open>f\<close>.\<close>

lemma every_other_sum:
  fixes xs :: "nat list"
  shows "sum_list (every_other xs) + (\<Sum>d\<leftarrow>every_other (drop 1 xs). f d)
     = (\<Sum>i\<leftarrow>[0 ..< length xs]. if even i then xs ! i else f (xs ! i))"
proof (induction xs rule: every_other.induct)
  case 1
  show ?case by simp
next
  case (2 x)
  show ?case by simp
next
  case (3 x y xs)
  have "(\<Sum>i\<leftarrow>[0 ..< length (x # y # xs)].
            if even i then (x # y # xs) ! i else f ((x # y # xs) ! i))
      = x + f y + (\<Sum>i\<leftarrow>[0 ..< length xs]. if even i then xs ! i else f (xs ! i))"
    by (simp add: upt_two comp_def add.assoc del: upt_Suc cong: if_cong)
  moreover have "sum_list (every_other (x # y # xs))
        + (\<Sum>d\<leftarrow>every_other (drop 1 (x # y # xs)). f d)
      = x + f y + (sum_list (every_other xs) + (\<Sum>d\<leftarrow>every_other (drop 1 xs). f d))"
    by (cases xs) simp_all
  ultimately show ?case using 3 by simp
qed

lemma every_other_subset: "set (every_other xs) \<subseteq> set xs"
  by (induction xs rule: every_other.induct) auto

lemma luhn_total_spec:
  assumes "\<forall>d \<in> set ds. d \<le> 9"
  shows "luhn_total ds = luhn_spec_total ds"
proof -
  have "\<forall>d \<in> set (even_digits ds). d \<le> 9"
    using assms every_other_subset [of "drop 1 (rev ds)"] set_drop_subset [of 1 "rev ds"]
    by (auto simp: even_digits_def)
  then have "luhn_total ds = sum_list (every_other (rev ds))
      + (\<Sum>d\<leftarrow>every_other (drop 1 (rev ds)). luhn_spec_term 2 d)"
    by (simp add: luhn_total_def add_doubled_sum odd_digits_def even_digits_def)
  also have "\<dots> = (\<Sum>i\<leftarrow>[0 ..< length (rev ds)].
      if even i then rev ds ! i else luhn_spec_term 2 (rev ds ! i))"
    by (rule every_other_sum)
  also have "\<dots> = luhn_spec_total ds"
    unfolding luhn_spec_total_def
    by (rule arg_cong [where f = sum_list]) (simp add: luhn_spec_term_def)
  finally show ?thesis .
qed

lemma split_into_digits_decimal:
  "list_all is_decimal_chr s
     \<Longrightarrow> split_into_digits s = Inr (map (\<lambda>c. (of_char c :: nat) - 48) s)"
  by (induction s) (simp_all add: int_chr_def)

lemma split_into_digits_fails:
  "\<not> list_all is_decimal_chr s \<Longrightarrow> \<exists>e. split_into_digits s = Inl e"
  by (induction s) (auto simp: int_chr_def split: sum.splits)

lemma decimal_le9: "is_decimal_chr c \<Longrightarrow> (of_char c :: nat) - 48 \<le> 9"
  unfolding is_decimal_chr_def by arith

lemma choice_decimal: "is_decimal_chr (secrets_choice ''0123456789'' r)"
proof -
  have "\<forall>c \<in> set ''0123456789''. is_decimal_chr c"
    by (simp add: is_decimal_chr_def)
  moreover have "r mod length ''0123456789'' < length ''0123456789''"
    by simp
  ultimately show ?thesis
    unfolding secrets_choice_def using nth_mem by blast
qed



lemma str_of_digit: "d < 10 \<Longrightarrow> str_of_nat d = [chr_of_digit d]"
  by (simp add: str_of_nat_def digits_of_nat_small)

lemma luhn_check_decimal:
  assumes "list_all is_decimal_chr s"
  shows "calculate_luhn_check_digit s
     = Inr (luhn_spec_check (map (\<lambda>c. (of_char c :: nat) - 48) s))"
proof -
  have "\<forall>d \<in> set (map (\<lambda>c. (of_char c :: nat) - 48) s). d \<le> 9"
    using assms by (auto simp: list_all_iff decimal_le9)
  then show ?thesis
    using assms
    by (simp add: calculate_luhn_check_digit_def split_into_digits_decimal luhn_total_spec
        luhn_spec_check_def)
qed

text \<open>What the function returns for a code of decimal digits and a length that leaves
  room for at least one random digit.\<close>

lemma generate_admission_number_value:
  fixes rnd :: rng
  assumes "code \<noteq> []" and "list_all is_decimal_chr code"
    and "total_length - int (length code) - 1 > 0"
  defines "n \<equiv> nat (total_length - int (length code) - 1)"
  defines "partial \<equiv> code @ map (\<lambda>i. secrets_choice ''0123456789'' (rnd i)) [0 ..< n]"
  shows "generate_admission_number (Some code) total_length rnd
     = (Inr (partial @ [chr_of_digit (luhn_spec_check (map (\<lambda>c. (of_char c :: nat) - 48) partial))]),
        rng_drop n rnd)"
    and "list_all is_decimal_chr partial"
proof -
  show dec: "list_all is_decimal_chr partial"
    using assms(2) by (auto simp: partial_def list_all_iff choice_decimal)
  have isd: "str_isdigit code"
    using assms(1,2) by (simp add: str_isdigit_def chr_isdigit_def list_all_iff)
  have cd10: "luhn_spec_check (map (\<lambda>c. (of_char c :: nat) - 48) partial) < 10"
    by (simp add: luhn_spec_check_def)
  have "calculate_luhn_check_digit partial
      = Inr (luhn_spec_check (map (\<lambda>c. (of_char c :: nat) - 48) partial))"
    using dec by (rule luhn_check_decimal)
  then show "generate_admission_number (Some code) total_length rnd
     = (Inr (partial @ [chr_of_digit (luhn_spec_check (map (\<lambda>c. (of_char c :: nat) - 48) partial))]),
        rng_drop n rnd)"
    using assms(1,3) isd cd10
    by (simp add: generate_admission_number_def Let_def partial_def n_def str_of_digit)
qed



lemma split_into_digits_fails_value:
  "\<not> list_all is_decimal_chr s \<Longrightarrow> \<exists>msg. split_into_digits s = Inl (ValueError msg)"
  by (induction s) (auto simp: int_chr_def split: sum.splits)

lemma generate_admission_number_inl:
  "fst (generate_admission_number school_code total_length rnd) = Inl e \<Longrightarrow> \<exists>msg. e = ValueError msg"
proof -
  assume a: "fst (generate_admission_number school_code total_length rnd) = Inl e"
  have "\<And>s. calculate_luhn_check_digit s = Inl e \<Longrightarrow> \<exists>msg. e = ValueError msg"
  proof -
    fix s assume "calculate_luhn_check_digit s = Inl e"
    then have "split_into_digits s = Inl e"
      by (simp add: calculate_luhn_check_digit_def split: sum.splits)
    moreover have "list_all is_decimal_chr s \<or> \<not> list_all is_decimal_chr s" by simp
    ultimately show "\<exists>msg. e = ValueError msg"
      using split_into_digits_decimal [of s] split_into_digits_fails_value [of s] by auto
  qed
  then show ?thesis using a
    by (auto simp: generate_admission_number_def Let_def split: option.splits if_splits sum.splits)
qed

lemma generate_admission_number_fails_iff:
  "(\<exists>e. fst (generate_admission_number school_code total_length rnd) = Inl e)
     \<longleftrightarrow> (school_code = None
          \<or> (\<exists>code. school_code = Some code
                \<and> (code = [] \<or> \<not> list_all is_decimal_chr code
                     \<or> total_length - int (length code) - 1 \<le> 0)))"
proof (cases school_code)
  case None
  then show ?thesis by (simp add: generate_admission_number_def)
next
  case (Some code)
  show ?thesis
  proof (cases "code \<noteq> [] \<and> list_all is_decimal_chr code \<and> total_length - int (length code) - 1 > 0")
    case True
    then show ?thesis
      using generate_admission_number_value(1) [of code total_length rnd] Some by auto
  next
    case False
    have "\<exists>e. fst (generate_admission_number (Some code) total_length rnd) = Inl e"
    proof (cases "code = [] \<or> \<not> str_isdigit code \<or> total_length - int (length code) - 1 \<le> 0")
      case True
      then show ?thesis by (auto simp: generate_admission_number_def Let_def)
    next
      case f2: False
      with False have nd: "\<not> list_all is_decimal_chr code" by auto
      define partial where "partial = code @ map (\<lambda>i. secrets_choice ''0123456789'' (rnd i))
          [0 ..< nat (total_length - int (length code) - 1)]"
      have "\<not> list_all is_decimal_chr partial" using nd by (simp add: partial_def)
      then obtain msg where "split_into_digits partial = Inl (ValueError msg)"
        using split_into_digits_fails_value by blast
      then have "calculate_luhn_check_digit partial = Inl (ValueError msg)"
        by (simp add: calculate_luhn_check_digit_def)
      then show ?thesis using f2
        by (auto simp: generate_admission_number_def Let_def partial_def)
    qed
    then show ?thesis using False Some by auto
  qed
qed

lemma create_loop_error:
  "fst (generate_admission_number school_code 16 rnd) = Inl e
     \<Longrightarrow> create_loop school_code rows new_row rnd
          = Some (Inl e, snd (generate_admission_number school_code 16 rnd))"
  by (subst create_loop.simps) (auto split: prod.splits sum.splits)

text \<open>
  Claim C8. \<open>generate_admission_number\<close> fails, returning no string, exactly when the
  institution code is unset, or is not a non-empty string of decimal digits, or when
  \<open>total_length - len(prefix) - 1 \<le> 0\<close>. The exception is always the one class the
  source raises for a bad configuration (\<open>ValueError\<close>), and the enrollment loop does not
  catch it: it leaves the loop at once, with no further draw.
\<close>

theorem generate_admission_number_fails:
  "((\<exists>msg. fst (generate_admission_number school_code total_length rnd) = Inl (ValueError msg))
      \<longleftrightarrow> (school_code = None
           \<or> (\<exists>code. school_code = Some code
                 \<and> (code = [] \<or> \<not> list_all is_decimal_chr code
                      \<or> total_length - int (length code) - 1 \<le> 0))))
   \<and> (\<forall>e. fst (generate_admission_number school_code total_length rnd) = Inl e
          \<longrightarrow> (\<exists>msg. e = ValueError msg))
   \<and> (\<forall>e rows new_row. fst (generate_admission_number school_code 16 rnd) = Inl e
          \<longrightarrow> create_loop school_code rows new_row rnd
               = Some (Inl e, snd (generate_admission_number school_code 16 rnd)))"
proof (intro conjI allI impI)
  have "(\<exists>msg. fst (generate_admission_number school_code total_length rnd) = Inl (ValueError msg))
      \<longleftrightarrow> (\<exists>e. fst (generate_admission_number school_code total_length rnd) = Inl e)"
    using generate_admission_number_inl [of school_code total_length rnd] by blast
  then show "(\<exists>msg. fst (generate_admission_number school_code total_length rnd) = Inl (ValueError msg))
      \<longleftrightarrow> (school_code = None
           \<or> (\<exists>code. school_code = Some code
                 \<and> (code = [] \<or> \<not> list_all is_decimal_chr code
                      \<or> total_length - int (length code) - 1 \<le> 0)))"
    by (simp only: generate_admission_number_fails_iff)
next
  fix e
  assume "fst (generate_admission_number school_code total_length rnd) = Inl e"
  then show "\<exists>msg. e = ValueError msg"
    by (rule generate_admission_number_inl)
next
  fix e rows and new_row :: "string \<Rightarrow> student"
  assume "fst (generate_admission_number school_code 16 rnd) = Inl e"
  then show "create_loop school_code rows new_row rnd
      = Some (Inl e, snd (generate_admission_number school_code 16 rnd))"
    by (rule create_loop_error)
qed

theorem generate_admission_number_fails_witness:
  "\<exists>msg. fst (generate_admission_number (Some ''12a'') 16 (\<lambda>i. i)) = Inl (ValueError msg)"
proof -
  have c: "Some ''12a'' = None
      \<or> (\<exists>code. Some ''12a'' = Some code
            \<and> (code = [] \<or> \<not> list_all is_decimal_chr code
                 \<or> (16 :: int) - int (length code) - 1 \<le> 0))"
    by (simp add: is_decimal_chr_def)
  from generate_admission_number_fails [of "Some ''12a''" 16 "\<lambda>i. i"]
  have "(\<exists>msg. fst (generate_admission_number (Some ''12a'') 16 (\<lambda>i. i)) = Inl (ValueError msg))
      \<longleftrightarrow> (Some ''12a'' = None
           \<or> (\<exists>code. Some ''12a'' = Some code
                 \<and> (code = [] \<or> \<not> list_all is_decimal_chr code
                      \<or> (16 :: int) - int (length code) - 1 \<le> 0)))"
    by (rule conjunct1)
  from this c show ?thesis by (rule iffD2)
qed

section \<open>Properties of transaction validation\<close>

text \<open>The dictionary \<open>clean\<close> raises, one entry per condition of the source.\<close>

lemma clean_result:
  "clean item_table self =
     (let items = items_all item_table self;
          E = (if u_role (t_payer self) \<noteq> Some ROLE_PARENT
               then [(''payer'', ''Payer must have role 'Parent'.'')] else [])
            @ (if \<exists>a. t_amount self = Some a \<and> a \<le> 0
               then [(''amount'', ''Amount must be greater than 0.'')] else [])
            @ (if pk_truthy (t_pk self) \<and> items = []
               then [(''items'', ''At least one fee item must be added to the transaction.'')]
               else [])
            @ (if pk_truthy (t_pk self)
                  \<and> (items = [] \<or> t_amount self \<noteq> Some (sum_list (map ti_amount items)))
               then [(''items_amount'', ''Sum of item amounts must equal the transaction amount.'')]
               else [])
            @ (if pk_truthy (t_pk self)
                  \<and> (\<exists>ti \<in> set items. s_parent (f_student (ti_fee ti)) \<noteq> u_pk (t_payer self))
               then [(''items_owner'', ''All fee items must belong to students of the payer.'')]
               else [])
      in if E = [] then Inr () else Inl (ValidationError E))"
  unfolding clean_def Let_def aggregate_sum_def
  by (cases "t_amount self"; cases "pk_truthy (t_pk self)")
     (auto simp: filter_empty_conv)

lemma clean_keys:
  "clean item_table self = Inl (ValidationError errors) \<Longrightarrow>
     distinct (map fst errors) \<and>
     fst ` set errors = violated_fields item_table self
        \<union> (if pk_truthy (t_pk self) \<and> items_all item_table self = [] then {''items_amount''} else {})"
  unfolding clean_result violated_fields_def Let_def list_ex_iff
  by (cases "t_amount self") (auto split: if_splits)

lemma clean_raises_iff:
  "(\<exists>errors. clean item_table self = Inl (ValidationError errors)) \<longleftrightarrow> violated_fields item_table self \<noteq> {}"
  unfolding clean_result violated_fields_def Let_def list_ex_iff
  by (cases "t_amount self") (auto split: if_splits)

lemma clean_passes_iff:
  "clean item_table self = Inr () \<longleftrightarrow> violated_fields item_table self = {}"
  unfolding clean_result violated_fields_def Let_def list_ex_iff
  by (cases "t_amount self") (auto split: if_splits)


lemma items_in_violated:
  "pk_truthy (t_pk self) \<Longrightarrow> items_all item_table self = [] \<Longrightarrow> ''items'' \<in> violated_fields item_table self"
  by (simp add: violated_fields_def)

lemma clean_reports:
  "(\<exists>errors. clean item_table self = Inl (ValidationError errors) \<and> k \<in> fst ` set errors)
     \<longleftrightarrow> k \<in> violated_fields item_table self
           \<union> (if pk_truthy (t_pk self) \<and> items_all item_table self = [] then {''items_amount''} else {})"
  (is "?L \<longleftrightarrow> k \<in> ?R")
proof
  assume ?L
  then show "k \<in> ?R" using clean_keys [of item_table self] by blast
next
  assume r: "k \<in> ?R"
  then have "violated_fields item_table self \<noteq> {}"
    using items_in_violated [of self item_table] by (auto split: if_splits)
  then obtain errors where e: "clean item_table self = Inl (ValidationError errors)"
    using clean_raises_iff [of item_table self] by blast
  then have "fst ` set errors = ?R" using clean_keys [of item_table self errors] by blast
  with r e show ?L by blast
qed

lemma violated_payer:
  "''payer'' \<in> violated_fields item_table self \<longleftrightarrow> u_role (t_payer self) \<noteq> Some ROLE_PARENT"
  by (simp add: violated_fields_def Let_def)

lemma violated_amount:
  "''amount'' \<in> violated_fields item_table self \<longleftrightarrow> (\<exists>a. t_amount self = Some a \<and> a \<le> 0)"
  by (cases "t_amount self") (simp_all add: violated_fields_def Let_def)

lemma violated_items:
  "''items'' \<in> violated_fields item_table self
     \<longleftrightarrow> pk_truthy (t_pk self) \<and> items_all item_table self = []"
  by (simp add: violated_fields_def Let_def)

lemma violated_items_amount:
  "''items_amount'' \<in> violated_fields item_table self
     \<longleftrightarrow> pk_truthy (t_pk self)
         \<and> t_amount self \<noteq> Some (sum_list (map ti_amount (items_all item_table self)))"
  by (simp add: violated_fields_def Let_def)

lemma violated_items_owner:
  "''items_owner'' \<in> violated_fields item_table self
     \<longleftrightarrow> pk_truthy (t_pk self)
         \<and> (\<exists>ti \<in> set (items_all item_table self).
                s_parent (f_student (ti_fee ti)) \<noteq> u_pk (t_payer self))"
  by (simp add: violated_fields_def Let_def list_ex_iff)

text \<open>
  Claim C2, amended. For every transaction whose row exists, validation reports an error
  on \<open>items_amount\<close> if and only if the transaction has no line items or the sum of its
  line-item amounts differs from the declared amount; and the errors on \<open>payer\<close>,
  \<open>amount\<close>, \<open>items\<close> and \<open>items_owner\<close> are reported by their own rules, whatever the sum.
\<close>

theorem clean_items_amount:
  assumes "pk_truthy (t_pk self)"
  shows "((\<exists>errors. clean item_table self = Inl (ValidationError errors)
                \<and> ''items_amount'' \<in> fst ` set errors)
          \<longleftrightarrow> (items_all item_table self = []
               \<or> t_amount self \<noteq> Some (sum_list (map ti_amount (items_all item_table self)))))
       \<and> ((\<exists>errors. clean item_table self = Inl (ValidationError errors)
                \<and> ''payer'' \<in> fst ` set errors)
          \<longleftrightarrow> u_role (t_payer self) \<noteq> Some ROLE_PARENT)
       \<and> ((\<exists>errors. clean item_table self = Inl (ValidationError errors)
                \<and> ''amount'' \<in> fst ` set errors)
          \<longleftrightarrow> (\<exists>a. t_amount self = Some a \<and> a \<le> 0))
       \<and> ((\<exists>errors. clean item_table self = Inl (ValidationError errors)
                \<and> ''items'' \<in> fst ` set errors)
          \<longleftrightarrow> items_all item_table self = [])
       \<and> ((\<exists>errors. clean item_table self = Inl (ValidationError errors)
                \<and> ''items_owner'' \<in> fst ` set errors)
          \<longleftrightarrow> (\<exists>ti \<in> set (items_all item_table self).
                 s_parent (f_student (ti_fee ti)) \<noteq> u_pk (t_payer self)))"
  using assms
  by (auto simp only: clean_reports Un_iff violated_payer violated_amount violated_items
      violated_items_amount violated_items_owner split: if_splits)

theorem clean_items_amount_witness:
  "pk_truthy (Some 1)
   \<and> (\<exists>errors.
         clean
           [\<lparr> ti_transaction = 1,
               ti_fee = \<lparr> f_student = Student_create 7 ''1230000000000017'' False ''Ann'' ''Lee'' ''female'',
                          f_fee_type = ''book_fee'', f_amount = 40 \<rparr>,
               ti_amount = 40 \<rparr>,
            \<lparr> ti_transaction = 1,
               ti_fee = \<lparr> f_student = Student_create 7 ''1230000000000025'' True ''Bob'' ''Lee'' ''male'',
                          f_fee_type = ''bus_fee'', f_amount = 50 \<rparr>,
               ti_amount = 50 \<rparr>]
           \<lparr> t_pk = Some 1,
              t_payer = \<lparr> u_pk = 7, u_role = Some ''parent'', u_last_name = Some ''Lee'' \<rparr>,
              t_amount = Some 100, t_description = None, t_status = ''pending'',
              t_transaction_type = ''cash'' \<rparr>
         = Inl (ValidationError errors)
         \<and> ''items_amount'' \<in> fst ` set errors)"
proof -
  let ?table = "[\<lparr> ti_transaction = 1,
               ti_fee = \<lparr> f_student = Student_create 7 ''1230000000000017'' False ''Ann'' ''Lee'' ''female'',
                          f_fee_type = ''book_fee'', f_amount = 40 \<rparr>,
               ti_amount = 40 \<rparr>,
            \<lparr> ti_transaction = 1,
               ti_fee = \<lparr> f_student = Student_create 7 ''1230000000000025'' True ''Bob'' ''Lee'' ''male'',
                          f_fee_type = ''bus_fee'', f_amount = 50 \<rparr>,
               ti_amount = 50 \<rparr>]"
  let ?tx = "\<lparr> t_pk = Some 1,
              t_payer = \<lparr> u_pk = 7, u_role = Some ''parent'', u_last_name = Some ''Lee'' \<rparr>,
              t_amount = Some (100 :: rat), t_description = None, t_status = ''pending'',
              t_transaction_type = ''cash'' \<rparr>"
  have h: "pk_truthy (t_pk ?tx)"
    by (simp add: pk_truthy_def)
  have m: "items_all ?table ?tx = []
      \<or> t_amount ?tx \<noteq> Some (sum_list (map ti_amount (items_all ?table ?tx)))"
    by (simp add: items_all_def)
  have "(\<exists>errors. clean ?table ?tx = Inl (ValidationError errors)
            \<and> ''items_amount'' \<in> fst ` set errors)
      \<longleftrightarrow> (items_all ?table ?tx = []
           \<or> t_amount ?tx \<noteq> Some (sum_list (map ti_amount (items_all ?table ?tx))))"
    using clean_items_amount [OF h, of ?table] by (rule conjunct1)
  from this m have "\<exists>errors. clean ?table ?tx = Inl (ValidationError errors)
            \<and> ''items_amount'' \<in> fst ` set errors"
    by (rule iffD2)
  then show ?thesis by (simp add: pk_truthy_def)
qed

text \<open>
  Claim C2 as it is written fails for a saved transaction that has the default amount
  0.00 and no line items yet: the sum of no amounts is 0, equal to the declared
  amount, and the error on \<open>items_amount\<close> is reported all the same.
\<close>

theorem clean_items_amount_counterexample:
  "pk_truthy (Some 1)
   \<and> items_all []
        \<lparr> t_pk = Some 1,
           t_payer = \<lparr> u_pk = 7, u_role = Some ''parent'', u_last_name = Some ''Lee'' \<rparr>,
           t_amount = Some 0, t_description = None, t_status = ''pending'',
           t_transaction_type = ''cash'' \<rparr> = []
   \<and> Some (sum_list (map ti_amount ([] :: transaction_item list))) = Some (0 :: rat)
   \<and> clean []
        \<lparr> t_pk = Some 1,
           t_payer = \<lparr> u_pk = 7, u_role = Some ''parent'', u_last_name = Some ''Lee'' \<rparr>,
           t_amount = Some 0, t_description = None, t_status = ''pending'',
           t_transaction_type = ''cash'' \<rparr>
     = Inl (ValidationError
         [(''amount'', ''Amount must be greater than 0.''),
          (''items'', ''At least one fee item must be added to the transaction.''),
          (''items_amount'', ''Sum of item amounts must equal the transaction amount.'')])"
  by (simp add: clean_def items_all_def aggregate_sum_def pk_truthy_def ROLE_PARENT_def)

text \<open>
  Claim C3, amended. For every transaction whose row exists, validation reports an error
  on \<open>items_owner\<close> if and only if at least one line item's fee belongs to a student whose
  owning parent is not the payer; the error is one fixed sentence and does not list the
  violating items.
\<close>

theorem clean_items_owner:
  assumes "pk_truthy (t_pk self)"
  shows "((\<exists>errors. clean item_table self = Inl (ValidationError errors)
                \<and> ''items_owner'' \<in> fst ` set errors)
          \<longleftrightarrow> (\<exists>ti \<in> set (items_all item_table self).
                 s_parent (f_student (ti_fee ti)) \<noteq> u_pk (t_payer self)))
       \<and> (\<forall>errors msg. clean item_table self = Inl (ValidationError errors)
              \<and> (''items_owner'', msg) \<in> set errors
            \<longrightarrow> msg = ''All fee items must belong to students of the payer.'')"
proof (intro conjI allI impI)
  show "(\<exists>errors. clean item_table self = Inl (ValidationError errors)
                \<and> ''items_owner'' \<in> fst ` set errors)
          \<longleftrightarrow> (\<exists>ti \<in> set (items_all item_table self).
                 s_parent (f_student (ti_fee ti)) \<noteq> u_pk (t_payer self))"
    using assms
    by (auto simp only: clean_reports Un_iff violated_items_owner split: if_splits)
next
  fix errors msg
  assume "clean item_table self = Inl (ValidationError errors) \<and> (''items_owner'', msg) \<in> set errors"
  then show "msg = ''All fee items must belong to students of the payer.''"
    unfolding clean_result Let_def
    by (auto split: if_splits)
qed

theorem clean_items_owner_witness:
  "pk_truthy (Some 1)
   \<and> (\<exists>errors.
        clean
          [\<lparr> ti_transaction = 1, ti_fee = \<lparr> f_student = Student_create 7 ''1230000000000017'' False ''Ann'' ''Lee'' ''female'', f_fee_type = ''book_fee'', f_amount = 40 \<rparr>, ti_amount = 40 \<rparr>,
      \<lparr> ti_transaction = 1, ti_fee = \<lparr> f_student = Student_create 8 ''1230000000000025'' False ''Ann'' ''Lee'' ''female'', f_fee_type = ''bus_fee'', f_amount = 60 \<rparr>, ti_amount = 60 \<rparr>]
          \<lparr> t_pk = Some 1, t_payer = \<lparr> u_pk = 7, u_role = Some ''parent'', u_last_name = Some ''Lee'' \<rparr>, t_amount = Some 100, t_description = None, t_status = ''pending'', t_transaction_type = ''cash'' \<rparr>
        = Inl (ValidationError errors)
        \<and> ''items_owner'' \<in> fst ` set errors)"
proof -
  let ?table = "[\<lparr> ti_transaction = 1, ti_fee = \<lparr> f_student = Student_create 7 ''1230000000000017'' False ''Ann'' ''Lee'' ''female'', f_fee_type = ''book_fee'', f_amount = 40 \<rparr>, ti_amount = 40 \<rparr>,
      \<lparr> ti_transaction = 1, ti_fee = \<lparr> f_student = Student_create 8 ''1230000000000025'' False ''Ann'' ''Lee'' ''female'', f_fee_type = ''bus_fee'', f_amount = 60 \<rparr>, ti_amount = 60 \<rparr>]"
  let ?tx = "\<lparr> t_pk = Some 1, t_payer = \<lparr> u_pk = 7, u_role = Some ''parent'', u_last_name = Some ''Lee'' \<rparr>, t_amount = Some 100, t_description = None, t_status = ''pending'', t_transaction_type = ''cash'' \<rparr>"
  have h: "pk_truthy (t_pk ?tx)"
    by (simp add: pk_truthy_def)
  have m: "\<exists>ti \<in> set (items_all ?table ?tx).
      s_parent (f_student (ti_fee ti)) \<noteq> u_pk (t_payer ?tx)"
    by (simp add: items_all_def Student_create_def)
  have "(\<exists>errors. clean ?table ?tx = Inl (ValidationError errors)
            \<and> ''items_owner'' \<in> fst ` set errors)
      \<longleftrightarrow> (\<exists>ti \<in> set (items_all ?table ?tx).
             s_parent (f_student (ti_fee ti)) \<noteq> u_pk (t_payer ?tx))"
    using clean_items_owner [OF h, of ?table] by (rule conjunct1)
  from this m have "\<exists>errors. clean ?table ?tx = Inl (ValidationError errors)
            \<and> ''items_owner'' \<in> fst ` set errors"
    by (rule iffD2)
  then show ?thesis by (simp add: pk_truthy_def)
qed

text \<open>
  Claim C3 as it is written fails: the error does not name the violating items. The two
  item tables below differ in which item violates the rule (the bus fee in the first,
  the book fee in the second), and validation raises the same error for both.
\<close>

theorem clean_items_owner_counterexample:
  "clean
     [\<lparr> ti_transaction = 1, ti_fee = \<lparr> f_student = Student_create 7 ''1230000000000017'' False ''Ann'' ''Lee'' ''female'', f_fee_type = ''book_fee'', f_amount = 40 \<rparr>, ti_amount = 40 \<rparr>,
      \<lparr> ti_transaction = 1, ti_fee = \<lparr> f_student = Student_create 8 ''1230000000000025'' False ''Ann'' ''Lee'' ''female'', f_fee_type = ''bus_fee'', f_amount = 60 \<rparr>, ti_amount = 60 \<rparr>]
     \<lparr> t_pk = Some 1, t_payer = \<lparr> u_pk = 7, u_role = Some ''parent'', u_last_name = Some ''Lee'' \<rparr>, t_amount = Some 100, t_description = None, t_status = ''pending'', t_transaction_type = ''cash'' \<rparr>
   = Inl (ValidationError [(''items_owner'', ''All fee items must belong to students of the payer.'')])
   \<and> clean
     [\<lparr> ti_transaction = 1, ti_fee = \<lparr> f_student = Student_create 8 ''1230000000000025'' False ''Ann'' ''Lee'' ''female'', f_fee_type = ''book_fee'', f_amount = 40 \<rparr>, ti_amount = 40 \<rparr>,
      \<lparr> ti_transaction = 1, ti_fee = \<lparr> f_student = Student_create 7 ''1230000000000017'' False ''Ann'' ''Lee'' ''female'', f_fee_type = ''bus_fee'', f_amount = 60 \<rparr>, ti_amount = 60 \<rparr>]
     \<lparr> t_pk = Some 1, t_payer = \<lparr> u_pk = 7, u_role = Some ''parent'', u_last_name = Some ''Lee'' \<rparr>, t_amount = Some 100, t_description = None, t_status = ''pending'', t_transaction_type = ''cash'' \<rparr>
   = Inl (ValidationError [(''items_owner'', ''All fee items must belong to students of the payer.'')])"
  by (simp add: clean_def items_all_def aggregate_sum_def pk_truthy_def ROLE_PARENT_def
      Student_create_def)

text \<open>
  Claim C4. Validation evaluates every rule and raises nothing when none is violated;
  when some rule is violated it raises one \<open>ValidationError\<close> whose dictionary has each
  field once and holds the field of every violated rule. The fields it holds are those
  of the violated rules, and \<open>items_amount\<close> whenever the saved transaction has no items.
\<close>

theorem clean_collects_all:
  "(violated_fields item_table self = {} \<longrightarrow> clean item_table self = Inr ())
   \<and> (violated_fields item_table self \<noteq> {} \<longrightarrow>
        (\<exists>errors. clean item_table self = Inl (ValidationError errors)
           \<and> distinct (map fst errors)
           \<and> violated_fields item_table self \<subseteq> fst ` set errors
           \<and> fst ` set errors = violated_fields item_table self
                \<union> (if pk_truthy (t_pk self) \<and> items_all item_table self = []
                    then {''items_amount''} else {})))"
proof (intro conjI impI)
  assume "violated_fields item_table self = {}"
  then show "clean item_table self = Inr ()" by (simp only: clean_passes_iff)
next
  assume "violated_fields item_table self \<noteq> {}"
  then obtain errors where e: "clean item_table self = Inl (ValidationError errors)"
    using clean_raises_iff [of item_table self] by blast
  from clean_keys [OF e] e
  show "\<exists>errors. clean item_table self = Inl (ValidationError errors)
           \<and> distinct (map fst errors)
           \<and> violated_fields item_table self \<subseteq> fst ` set errors
           \<and> fst ` set errors = violated_fields item_table self
                \<union> (if pk_truthy (t_pk self) \<and> items_all item_table self = []
                    then {''items_amount''} else {})"
    by blast
qed

theorem clean_collects_all_witness:
  "clean
     [\<lparr> ti_transaction = 1, ti_fee = \<lparr> f_student = Student_create 7 ''1230000000000017'' False ''Ann'' ''Lee'' ''female'', f_fee_type = ''book_fee'', f_amount = 40 \<rparr>, ti_amount = 40 \<rparr>,
      \<lparr> ti_transaction = 1, ti_fee = \<lparr> f_student = Student_create 7 ''1230000000000025'' False ''Ann'' ''Lee'' ''female'', f_fee_type = ''bus_fee'', f_amount = 60 \<rparr>, ti_amount = 60 \<rparr>]
     \<lparr> t_pk = Some 1, t_payer = \<lparr> u_pk = 7, u_role = Some ''parent'', u_last_name = Some ''Lee'' \<rparr>, t_amount = Some 100, t_description = None, t_status = ''pending'', t_transaction_type = ''cash'' \<rparr>
   = Inr ()
   \<and> (\<exists>errors.
        clean
          [\<lparr> ti_transaction = 1, ti_fee = \<lparr> f_student = Student_create 7 ''1230000000000017'' False ''Ann'' ''Lee'' ''female'', f_fee_type = ''book_fee'', f_amount = 40 \<rparr>, ti_amount = 40 \<rparr>,
      \<lparr> ti_transaction = 1, ti_fee = \<lparr> f_student = Student_create 7 ''1230000000000025'' False ''Ann'' ''Lee'' ''female'', f_fee_type = ''bus_fee'', f_amount = 50 \<rparr>, ti_amount = 50 \<rparr>]
          \<lparr> t_pk = Some 1, t_payer = \<lparr> u_pk = 7, u_role = Some ''teacher'', u_last_name = Some ''Lee'' \<rparr>, t_amount = Some 100, t_description = None, t_status = ''pending'', t_transaction_type = ''cash'' \<rparr>
        = Inl (ValidationError errors)
        \<and> distinct (map fst errors)
        \<and> fst ` set errors = {''payer'', ''items_amount''})"
proof -
  let ?ok = "[\<lparr> ti_transaction = 1, ti_fee = \<lparr> f_student = Student_create 7 ''1230000000000017'' False ''Ann'' ''Lee'' ''female'', f_fee_type = ''book_fee'', f_amount = 40 \<rparr>, ti_amount = 40 \<rparr>,
      \<lparr> ti_transaction = 1, ti_fee = \<lparr> f_student = Student_create 7 ''1230000000000025'' False ''Ann'' ''Lee'' ''female'', f_fee_type = ''bus_fee'', f_amount = 60 \<rparr>, ti_amount = 60 \<rparr>]"
  let ?t90 = "[\<lparr> ti_transaction = 1, ti_fee = \<lparr> f_student = Student_create 7 ''1230000000000017'' False ''Ann'' ''Lee'' ''female'', f_fee_type = ''book_fee'', f_amount = 40 \<rparr>, ti_amount = 40 \<rparr>,
      \<lparr> ti_transaction = 1, ti_fee = \<lparr> f_student = Student_create 7 ''1230000000000025'' False ''Ann'' ''Lee'' ''female'', f_fee_type = ''bus_fee'', f_amount = 50 \<rparr>, ti_amount = 50 \<rparr>]"
  let ?tx = "\<lparr> t_pk = Some 1, t_payer = \<lparr> u_pk = 7, u_role = Some ''parent'', u_last_name = Some ''Lee'' \<rparr>, t_amount = Some 100, t_description = None, t_status = ''pending'', t_transaction_type = ''cash'' \<rparr>"
  let ?txt = "\<lparr> t_pk = Some 1, t_payer = \<lparr> u_pk = 7, u_role = Some ''teacher'', u_last_name = Some ''Lee'' \<rparr>, t_amount = Some 100, t_description = None, t_status = ''pending'', t_transaction_type = ''cash'' \<rparr>"
  have v1: "violated_fields ?ok ?tx = {}"
    by (simp add: violated_fields_def items_all_def pk_truthy_def ROLE_PARENT_def
        Student_create_def)
  have v2: "violated_fields ?t90 ?txt = {''payer'', ''items_amount''}"
    by (simp add: violated_fields_def items_all_def pk_truthy_def ROLE_PARENT_def
        Student_create_def insert_commute)
  have i2: "items_all ?t90 ?txt \<noteq> []"
    by (simp add: items_all_def)
  have "violated_fields ?ok ?tx = {} \<longrightarrow> clean ?ok ?tx = Inr ()"
    using clean_collects_all [of ?ok ?tx] by (rule conjunct1)
  from this v1 have a: "clean ?ok ?tx = Inr ()"
    by (rule mp)
  have n2: "violated_fields ?t90 ?txt \<noteq> {}"
    by (simp only: v2) simp
  have "violated_fields ?t90 ?txt \<noteq> {} \<longrightarrow>
        (\<exists>errors. clean ?t90 ?txt = Inl (ValidationError errors)
           \<and> distinct (map fst errors)
           \<and> violated_fields ?t90 ?txt \<subseteq> fst ` set errors
           \<and> fst ` set errors = violated_fields ?t90 ?txt
                \<union> (if pk_truthy (t_pk ?txt) \<and> items_all ?t90 ?txt = []
                    then {''items_amount''} else {}))"
    using clean_collects_all [of ?t90 ?txt] by (rule conjunct2)
  from this n2 obtain errors where
    "clean ?t90 ?txt = Inl (ValidationError errors)" "distinct (map fst errors)"
    "fst ` set errors = violated_fields ?t90 ?txt
        \<union> (if pk_truthy (t_pk ?txt) \<and> items_all ?t90 ?txt = [] then {''items_amount''} else {})"
    by blast
  then have "clean ?t90 ?txt = Inl (ValidationError errors) \<and> distinct (map fst errors)
      \<and> fst ` set errors = {''payer'', ''items_amount''}"
    using v2 i2 by simp
  with a show ?thesis by blast
qed

text \<open>
  Claim C9. For every transaction whose row exists and that has no line items,
  validation reports an error on \<open>items\<close> and an error on \<open>items_amount\<close>, whatever the
  declared amount is.
\<close>

theorem clean_no_items:
  assumes "pk_truthy (t_pk self)" and "items_all item_table self = []"
  shows "\<exists>errors. clean item_table self = Inl (ValidationError errors)
           \<and> map_of errors ''items''
               = Some ''At least one fee item must be added to the transaction.''
           \<and> map_of errors ''items_amount''
               = Some ''Sum of item amounts must equal the transaction amount.''"
  using assms unfolding clean_result Let_def
  by (auto split: if_splits)

theorem clean_no_items_witness:
  "pk_truthy (Some 1)
   \<and> (\<exists>errors.
        clean [] \<lparr> t_pk = Some 1, t_payer = \<lparr> u_pk = 7, u_role = Some ''parent'', u_last_name = Some ''Lee'' \<rparr>, t_amount = Some 100, t_description = None, t_status = ''pending'', t_transaction_type = ''cash'' \<rparr>
        = Inl (ValidationError errors)
        \<and> map_of errors ''items''
            = Some ''At least one fee item must be added to the transaction.''
        \<and> map_of errors ''items_amount''
            = Some ''Sum of item amounts must equal the transaction amount.'')"
proof -
  let ?tx = "\<lparr> t_pk = Some 1, t_payer = \<lparr> u_pk = 7, u_role = Some ''parent'', u_last_name = Some ''Lee'' \<rparr>, t_amount = Some 100, t_description = None, t_status = ''pending'', t_transaction_type = ''cash'' \<rparr>"
  have h: "pk_truthy (t_pk ?tx)"
    by (simp add: pk_truthy_def)
  have e: "items_all [] ?tx = []"
    by (simp add: items_all_def)
  show ?thesis
    using clean_no_items [OF h e] by (simp add: pk_truthy_def)
qed

section \<open>Properties of enrollment\<close>



text \<open>One turn of the loop: a fresh number ends it, a taken one repeats it.\<close>

lemma create_loop_fresh:
  "generate_admission_number school_code 16 rnd = (Inr adm, rnd')
     \<Longrightarrow> adm \<notin> set (map s_admission_number rows)
     \<Longrightarrow> create_loop school_code rows new_row rnd = Some (Inr (new_row adm), rnd')"
  by (subst create_loop.simps) simp

lemma create_loop_collision:
  "generate_admission_number school_code 16 rnd = (Inr adm, rnd')
     \<Longrightarrow> adm \<in> set (map s_admission_number rows)
     \<Longrightarrow> create_loop school_code rows new_row rnd = create_loop school_code rows new_row rnd'"
  by (subst create_loop.simps) simp

text \<open>The loop returns as soon as a draw gives a number that is not in the table: after
  \<open>k\<close> collisions it returns the row of the next number.\<close>

lemma create_loop_returns:
  fixes rnd :: rng and school_code :: "string option"
  defines "next_rng \<equiv> \<lambda>r. snd (generate_admission_number school_code 16 r)"
  assumes "\<forall>j < k. \<exists>adm. fst (generate_admission_number school_code 16 ((next_rng ^^ j) rnd)) = Inr adm
              \<and> adm \<in> set (map s_admission_number rows)"
    and "fst (generate_admission_number school_code 16 ((next_rng ^^ k) rnd)) = Inr adm"
    and "adm \<notin> set (map s_admission_number rows)"
  shows "create_loop school_code rows new_row rnd
     = Some (Inr (new_row adm), (next_rng ^^ Suc k) rnd)"
  using assms(2-)
proof (induction k arbitrary: rnd)
  case 0
  then have "generate_admission_number school_code 16 rnd = (Inr adm, next_rng rnd)"
    by (simp add: next_rng_def prod_eq_iff)
  with 0 show ?case by (simp add: create_loop_fresh)
next
  case (Suc k)
  from Suc.prems(1) obtain a where a: "fst (generate_admission_number school_code 16 rnd) = Inr a"
    "a \<in> set (map s_admission_number rows)"
    by (metis funpow_0 zero_less_Suc)
  then have g: "generate_admission_number school_code 16 rnd = (Inr a, next_rng rnd)"
    by (simp add: next_rng_def prod_eq_iff)
  have "\<forall>j < k. \<exists>adm. fst (generate_admission_number school_code 16 ((next_rng ^^ j) (next_rng rnd))) = Inr adm
              \<and> adm \<in> set (map s_admission_number rows)"
  proof (intro allI impI)
    fix j assume "j < k"
    then have "Suc j < Suc k" by simp
    with Suc.prems(1) show "\<exists>adm. fst (generate_admission_number school_code 16 ((next_rng ^^ j) (next_rng rnd))) = Inr adm
              \<and> adm \<in> set (map s_admission_number rows)"
      by (metis funpow_Suc_right comp_apply)
  qed
  moreover have "fst (generate_admission_number school_code 16 ((next_rng ^^ k) (next_rng rnd))) = Inr adm"
    using Suc.prems(2) by (simp add: funpow_swap1)
  ultimately have "create_loop school_code rows new_row (next_rng rnd)
     = Some (Inr (new_row adm), (next_rng ^^ Suc k) (next_rng rnd))"
    using Suc.IH Suc.prems(3) by blast
  then show ?case
    using create_loop_collision [OF g a(2)] by (simp add: funpow_swap1)
qed


lemma create_student_account_failed:
  "create_student_account school_code user first_name last_name gender db rnd
     = Some (Inl e, db', rnd') \<Longrightarrow> db' = db"
  by (auto simp: create_student_account_def Let_def split: if_splits option.splits prod.splits sum.splits)











section \<open>Properties of the profile update\<close>

text \<open>\<open>get_object\<close> writes the view record only, and an update that returns a store other
  than the one \<open>get_object\<close> left has gone through the atomic block.\<close>

lemma get_object_keeps:
  "get_object request db = (r, db0) \<Longrightarrow>
     students db0 = students db \<and> profiles db0 = profiles db \<and> on_commit db0 = on_commit db"
  by (auto simp: get_object_def record_profile_view_def Let_def split: option.splits)




lemmas enrollment_eval =
  create_student_account_def py_or_def GENDER_OTHER_def gender_values_def py_title_def
  py_strip_def chr_isspace_def chr_title_def chr_lower_def chr_iscased_def chr_isupper_def
  chr_islower_def Let_def Student_create_def



text \<open>The same request with a gender that is not one of the three values.\<close>

lemma update_example_invalid:
  "create_student_account (Some ''123'') \<lparr> u_pk = 7, u_role = Some ''parent'', u_last_name = Some ''Lee'' \<rparr> (Some ''Zoe'') None (Some ''x'')
     \<lparr> students = [Student_create 7 ''1230000000000009'' False ''Ann'' ''Lee'' ''female''], profiles = [\<lparr> p_id = 3, p_user = \<lparr> u_pk = 7, u_role = Some ''parent'', u_last_name = Some ''Lee'' \<rparr>, p_data = ''new'' \<rparr>], content_views = [\<lparr> cv_object_id = 3, cv_user = 7, cv_viewer_ip = Some ''10.0.0.1'', cv_last_viewed = 100 \<rparr>], on_commit = [] \<rparr>
     (\<lambda>i. 7 * i)
   = Some (Inl (ValueError ''Invalid gender value. Allowed: ['female', 'male', 'other']''),
        \<lparr> students = [Student_create 7 ''1230000000000009'' False ''Ann'' ''Lee'' ''female''], profiles = [\<lparr> p_id = 3, p_user = \<lparr> u_pk = 7, u_role = Some ''parent'', u_last_name = Some ''Lee'' \<rparr>, p_data = ''new'' \<rparr>], content_views = [\<lparr> cv_object_id = 3, cv_user = 7, cv_viewer_ip = Some ''10.0.0.1'', cv_last_viewed = 100 \<rparr>], on_commit = [] \<rparr>,
        (\<lambda>i. 7 * i))"
  by (simp add: enrollment_eval)



text \<open>
  Claim C7. In a profile update that asks for a student, if the serializer has saved
  the profile and the enrollment then fails, the call answers a 400 response and leaves
  the store as it was when the atomic block began: the profile rows, the student rows
  and the registered callbacks are those from before the call.
\<close>

theorem update_rolls_back:
  fixes db0 :: "'a db" and request :: "'d request"
  defines "payload \<equiv> (case req_student request of
       None \<Rightarrow> \<lparr> c_first_name = None, c_last_name = None, c_gender = None \<rparr>
     | Some payload \<Rightarrow> payload)"
  assumes "get_object request db = (Inr instance, db0)"
    and "ser_is_valid ser partial instance (req_data request) = None"
    and "ser_save ser partial instance (req_data request) = Inr upd"
    and "req_create_student request = Some v" and "py_bool v"
    and "create_student_account school_code (p_user upd) (c_first_name payload)
           (c_last_name payload) (c_gender payload)
           (db0\<lparr> profiles := map (\<lambda>p. if p_id p = p_id instance then upd else p) (profiles db0) \<rparr>)
           rnd
         = Some (Inl e, db1, rnd')"
  shows "(\<exists>body. update ser school_code partial request db rnd
              = Some (Inr (Response body 400), db0, rnd'))
       \<and> profiles db0 = profiles db \<and> students db0 = students db
       \<and> on_commit db0 = on_commit db"
proof -
  have a: "update_atomic ser school_code partial request instance db0 rnd = Some (Inl e, rnd')"
    using assms(4-7) unfolding update_atomic_def payload_def Let_def by simp
  have "\<exists>body. update ser school_code partial request db rnd
              = Some (Inr (Response body 400), db0, rnd')"
    using assms(2,3) a by (cases e) (simp_all add: update_def)
  with get_object_keeps [OF assms(2)] show ?thesis by simp
qed

theorem update_rolls_back_witness:
  "\<exists>body db0.
     update \<lparr> ser_is_valid = (\<lambda>partial profile data. None), ser_save = (\<lambda>partial profile data. Inr (profile\<lparr> p_data := data \<rparr>)) \<rparr>
       (Some ''123'') False
       \<lparr> req_user = \<lparr> u_pk = 7, u_role = Some ''parent'', u_last_name = Some ''Lee'' \<rparr>, req_x_forwarded_for = None, req_remote_addr = Some ''10.0.0.1'', req_now = 100, req_data = ''new'', req_create_student = Some (JBool True), req_student = Some \<lparr> c_first_name = Some ''Zoe'', c_last_name = None, c_gender = Some ''x'' \<rparr> \<rparr>
       \<lparr> students = [Student_create 7 ''1230000000000009'' False ''Ann'' ''Lee'' ''female''], profiles = [\<lparr> p_id = 3, p_user = \<lparr> u_pk = 7, u_role = Some ''parent'', u_last_name = Some ''Lee'' \<rparr>, p_data = ''old'' \<rparr>], content_views = [], on_commit = [] \<rparr>
       (\<lambda>i. 7 * i)
     = Some (Inr (Response body 400), db0, (\<lambda>i. 7 * i))
     \<and> profiles db0 = [\<lparr> p_id = 3, p_user = \<lparr> u_pk = 7, u_role = Some ''parent'', u_last_name = Some ''Lee'' \<rparr>, p_data = ''old'' \<rparr>]
     \<and> students db0 = [Student_create 7 ''1230000000000009'' False ''Ann'' ''Lee'' ''female'']"
proof -
  let ?ser = "\<lparr> ser_is_valid = (\<lambda>partial profile data. None), ser_save = (\<lambda>partial profile data. Inr (profile\<lparr> p_data := data \<rparr>)) \<rparr> :: (string, string) serializer"
  let ?req = "\<lparr> req_user = \<lparr> u_pk = 7, u_role = Some ''parent'', u_last_name = Some ''Lee'' \<rparr>, req_x_forwarded_for = None, req_remote_addr = Some ''10.0.0.1'', req_now = 100, req_data = ''new'', req_create_student = Some (JBool True), req_student = Some \<lparr> c_first_name = Some ''Zoe'', c_last_name = None, c_gender = Some ''x'' \<rparr> \<rparr>"
  let ?db = "\<lparr> students = [Student_create 7 ''1230000000000009'' False ''Ann'' ''Lee'' ''female''], profiles = [\<lparr> p_id = 3, p_user = \<lparr> u_pk = 7, u_role = Some ''parent'', u_last_name = Some ''Lee'' \<rparr>, p_data = ''old'' \<rparr>], content_views = [], on_commit = [] \<rparr>"
  let ?viewed = "\<lparr> students = [Student_create 7 ''1230000000000009'' False ''Ann'' ''Lee'' ''female''], profiles = [\<lparr> p_id = 3, p_user = \<lparr> u_pk = 7, u_role = Some ''parent'', u_last_name = Some ''Lee'' \<rparr>, p_data = ''old'' \<rparr>], content_views = [\<lparr> cv_object_id = 3, cv_user = 7, cv_viewer_ip = Some ''10.0.0.1'', cv_last_viewed = 100 \<rparr>], on_commit = [] \<rparr>"
  let ?inst = "\<lparr> p_id = 3, p_user = \<lparr> u_pk = 7, u_role = Some ''parent'', u_last_name = Some ''Lee'' \<rparr>, p_data = ''old'' \<rparr>"
  let ?upd = "\<lparr> p_id = 3, p_user = \<lparr> u_pk = 7, u_role = Some ''parent'', u_last_name = Some ''Lee'' \<rparr>, p_data = ''new'' \<rparr>"
  let ?payload = "case req_student ?req of
       None \<Rightarrow> \<lparr> c_first_name = None, c_last_name = None, c_gender = None \<rparr>
     | Some payload \<Rightarrow> payload"
  have g: "get_object ?req ?db = (Inr ?inst, ?viewed)"
    by (simp add: get_object_def record_profile_view_def get_client_ip_def Let_def)
  have v: "ser_is_valid ?ser False ?inst (req_data ?req) = None" by simp
  have sv: "ser_save ?ser False ?inst (req_data ?req) = Inr ?upd" by simp
  have cs: "req_create_student ?req = Some (JBool True)" by simp
  have pb: "py_bool (JBool True)" by simp
  have c: "create_student_account (Some ''123'') (p_user ?upd) (c_first_name ?payload)
           (c_last_name ?payload) (c_gender ?payload)
           (?viewed\<lparr> profiles := map (\<lambda>p. if p_id p = p_id ?inst then ?upd else p) (profiles ?viewed) \<rparr>)
           (\<lambda>i. 7 * i)
         = Some (Inl (ValueError ''Invalid gender value. Allowed: ['female', 'male', 'other']''),
             \<lparr> students = [Student_create 7 ''1230000000000009'' False ''Ann'' ''Lee'' ''female''], profiles = [\<lparr> p_id = 3, p_user = \<lparr> u_pk = 7, u_role = Some ''parent'', u_last_name = Some ''Lee'' \<rparr>, p_data = ''new'' \<rparr>], content_views = [\<lparr> cv_object_id = 3, cv_user = 7, cv_viewer_ip = Some ''10.0.0.1'', cv_last_viewed = 100 \<rparr>], on_commit = [] \<rparr>, (\<lambda>i. 7 * i))"
    using update_example_invalid by simp
  from update_rolls_back [OF g v sv cs pb c]
  have "(\<exists>body. update ?ser (Some ''123'') False ?req ?db (\<lambda>i. 7 * i)
            = Some (Inr (Response body 400), ?viewed, (\<lambda>i. 7 * i)))
       \<and> profiles ?viewed = profiles ?db \<and> students ?viewed = students ?db" by blast
  then obtain body where
    b: "update ?ser (Some ''123'') False ?req ?db (\<lambda>i. 7 * i)
          = Some (Inr (Response body 400), ?viewed, (\<lambda>i. 7 * i))"
    by blast
  have p: "profiles ?viewed = [?inst]" by simp
  have s: "students ?viewed = [Student_create 7 ''1230000000000009'' False ''Ann'' ''Lee'' ''female'']"
    by simp
  from b p s show ?thesis by blast
qed



end
